theory Spec2Isabelle
  imports Complex_Main "HOL-Library.Sublist" "HOL-Library.Code_Target_Numeral"
begin

section \<open>Hardware-in-the-loop sensor simulator (main.py)\<close>

text \<open>
  The development follows \<^verbatim>\<open>src/main.py\<close>: the sensor model, the sample generator,
  the streaming worker and the control handlers that own the module's global state.

  Conventions of the embedding.
  \<^item> A Python \<^verbatim>\<open>float\<close> is a \<open>double\<close>: a finite binary64 number, an infinity or NaN.
    Every arithmetic operation rounds its exact result to the nearest double, ties to
    even, and overflows to an infinity. A zero carries no sign: \<^verbatim>\<open>0.0\<close> and \<^verbatim>\<open>-0.0\<close>
    are equal in Python and are one value here.
  \<^item> A number that comes from outside (a float field of a request body or of the
    default configuration, a reading of the clock, a random draw) is recorded as the
    number written; Python holds the nearest double, \<open>to_double\<close> of it, and that is what
    every computation reads.
  \<^item> \<^verbatim>\<open>random.random()\<close> and \<^verbatim>\<open>time.time()\<close> are inputs of the function that calls
    them: the draws \<open>u1\<close>, \<open>u2\<close> (each in \<open>[0, 1)\<close>) and the clock reading \<open>now\<close>.
  \<^item> A parameter whose source name is also a field name carries a prime
    (\<open>sensor_type'\<close>).
  \<^item> A handler that raises returns \<open>Inl\<close> of the exception; every handler also returns
    the module state it leaves behind.
\<close>

subsection \<open>Python floats\<close>

datatype double = Finite real | PosInf | NegInf | NaN


text \<open>The nearest integer, a tie going to the even one.\<close>

definition round_half_even :: "real \<Rightarrow> int" where
  "round_half_even x =
     (let f = \<lfloor>x\<rfloor>; d = x - of_int f
      in if d < 1 / 2 then f
         else if 1 / 2 < d then f + 1
         else if even f then f else f + 1)"

text \<open>
  \<open>ilog2 n\<close> is the position of the leading bit of \<open>n \<ge> 1\<close>, and \<open>exponent x\<close> the binary
  exponent of \<open>x \<noteq> 0\<close>: \<open>2 powi exponent x \<le> \<bar>x\<bar> < 2 powi (exponent x + 1)\<close>.
\<close>

fun ilog2 :: "nat \<Rightarrow> nat" where
  "ilog2 n = (if n < 2 then 0 else Suc (ilog2 (n div 2)))"

declare ilog2.simps [simp del]

definition exponent :: "real \<Rightarrow> int" where
  "exponent x =
     (if 1 \<le> \<bar>x\<bar> then int (ilog2 (nat \<lfloor>\<bar>x\<bar>\<rfloor>))
      else - int (ilog2 (nat (\<lceil>1 / \<bar>x\<bar>\<rceil> - 1))) - 1)"

text \<open>
  The spacing of the doubles around \<open>x\<close>: 52 fraction bits below the exponent, and the
  spacing of the subnormal numbers, \<open>2 powi (- 1074)\<close>, below the exponent \<open>- 1022\<close>.
\<close>

definition ulp :: "real \<Rightarrow> real" where
  "ulp x = 2 powi (max (exponent x) (- 1022) - 52)"

definition rnd :: "real \<Rightarrow> real" where
  "rnd x = of_int (round_half_even (x / ulp x)) * ulp x"

text \<open>
  The double nearest to a real number: what a float operation returns for the exact
  result \<open>x\<close>, and what reading a decimal literal gives. A result that rounds to
  \<open>2 ^ 1024\<close> or beyond is an infinity.
\<close>

definition to_double :: "real \<Rightarrow> double" where
  "to_double x =
     (if x = 0 then Finite 0
      else if 2 ^ 1024 \<le> \<bar>rnd x\<bar> then (if 0 < x then PosInf else NegInf)
      else Finite (rnd x))"

fun dneg :: "double \<Rightarrow> double" where
  "dneg (Finite x) = Finite (- x)"
| "dneg PosInf = NegInf"
| "dneg NegInf = PosInf"
| "dneg NaN = NaN"

text \<open>\<^verbatim>\<open>a + b\<close>.\<close>

fun dadd :: "double \<Rightarrow> double \<Rightarrow> double" where
  "dadd (Finite x) (Finite y) = to_double (x + y)"
| "dadd NaN b = NaN"
| "dadd a NaN = NaN"
| "dadd PosInf NegInf = NaN"
| "dadd NegInf PosInf = NaN"
| "dadd PosInf b = PosInf"
| "dadd a PosInf = PosInf"
| "dadd NegInf b = NegInf"
| "dadd a NegInf = NegInf"

text \<open>\<^verbatim>\<open>a - b\<close>.\<close>

definition dsub :: "double \<Rightarrow> double \<Rightarrow> double" where
  "dsub a b = dadd a (dneg b)"

text \<open>\<^verbatim>\<open>a * b\<close>.\<close>

fun dmul :: "double \<Rightarrow> double \<Rightarrow> double" where
  "dmul (Finite x) (Finite y) = to_double (x * y)"
| "dmul NaN b = NaN"
| "dmul a NaN = NaN"
| "dmul (Finite x) PosInf = (if x = 0 then NaN else if 0 < x then PosInf else NegInf)"
| "dmul (Finite x) NegInf = (if x = 0 then NaN else if 0 < x then NegInf else PosInf)"
| "dmul PosInf (Finite y) = (if y = 0 then NaN else if 0 < y then PosInf else NegInf)"
| "dmul NegInf (Finite y) = (if y = 0 then NaN else if 0 < y then NegInf else PosInf)"
| "dmul PosInf PosInf = PosInf"
| "dmul PosInf NegInf = NegInf"
| "dmul NegInf PosInf = NegInf"
| "dmul NegInf NegInf = PosInf"

text \<open>\<^verbatim>\<open>a / b\<close>; \<open>None\<close> is \<^verbatim>\<open>ZeroDivisionError\<close>, raised for every \<open>a\<close> when \<open>b\<close> is zero.\<close>

fun truediv :: "double \<Rightarrow> double \<Rightarrow> double option" where
  "truediv a (Finite y) =
     (if y = 0 then None
      else Some (case a of
                   Finite x \<Rightarrow> to_double (x / y)
                 | PosInf \<Rightarrow> (if 0 < y then PosInf else NegInf)
                 | NegInf \<Rightarrow> (if 0 < y then NegInf else PosInf)
                 | NaN \<Rightarrow> NaN))"
| "truediv (Finite x) PosInf = Some (Finite 0)"
| "truediv (Finite x) NegInf = Some (Finite 0)"
| "truediv a b = Some NaN"

text \<open>
  \<^verbatim>\<open>round(x, ndigits)\<close> on a float, for \<open>ndigits \<ge> 0\<close>: the decimal with \<open>ndigits\<close> places
  nearest to \<open>x\<close>, a tie going to the even last digit, read back as a double. An
  infinity or NaN is returned as it is.
\<close>

fun py_round :: "double \<Rightarrow> nat \<Rightarrow> double" where
  "py_round (Finite x) ndigits =
     to_double (of_int (round_half_even (x * 10 ^ ndigits)) / 10 ^ ndigits)"
| "py_round d ndigits = d"

subsection \<open>Sensor model\<close>

datatype SensorType = TEMPERATURE | PRESSURE | FORCE | ACCELERATION | POSITION | LIGHT

text \<open>
  \<^verbatim>\<open>class SensorType(str, Enum)\<close>: every member is a \<^verbatim>\<open>str\<close>, and compares and hashes
  as its value. \<open>SensorType_value\<close> is that string.
\<close>

fun SensorType_value :: "SensorType \<Rightarrow> string" where
  "SensorType_value TEMPERATURE = ''temperature''"
| "SensorType_value PRESSURE = ''pressure''"
| "SensorType_value FORCE = ''force''"
| "SensorType_value ACCELERATION = ''acceleration''"
| "SensorType_value POSITION = ''position''"
| "SensorType_value LIGHT = ''light''"

definition DEFAULT_HOST :: string where
  "DEFAULT_HOST = ''192.168.1.100''"

definition DEFAULT_PORT :: int where
  "DEFAULT_PORT = 8080"

text \<open>
  \<^verbatim>\<open>SimulationStatus\<close> is declared first, so that the unqualified field names
  \<open>sensor_type\<close> and \<open>sample_rate_hz\<close> are those of \<^verbatim>\<open>SimulationConfig\<close>.
\<close>

record SimulationStatus =
  running :: bool
  sensor_type :: "SensorType option"
  sample_rate_hz :: "double option"
  uptime_seconds :: "double option"

text \<open>
  The float fields hold the number as written in the request body or in the class
  body; the float Python keeps in the field is \<open>to_double\<close> of it.
\<close>

record SimulationConfig =
  sensor_type :: SensorType
  min_value :: real
  max_value :: real
  noise_factor :: real
  sample_rate_hz :: real
  host :: string
  port :: int

text \<open>The field defaults of \<^verbatim>\<open>SimulationConfig()\<close>.\<close>

definition default_config :: SimulationConfig where
  "default_config =
     \<lparr>sensor_type = TEMPERATURE, min_value = 0, max_value = 100, noise_factor = 1 / 10,
      sample_rate_hz = 1, host = DEFAULT_HOST, port = DEFAULT_PORT\<rparr>"

subsection \<open>Sample generator\<close>

text \<open>
  The dictionary returned by \<^verbatim>\<open>generate_sensor_data\<close>, keys \<^verbatim>\<open>"type"\<close>, \<^verbatim>\<open>"value"\<close>,
  \<^verbatim>\<open>"timestamp"\<close>, \<^verbatim>\<open>"unit"\<close>.
\<close>

record Reading =
  type :: string
  "value" :: double
  timestamp :: double
  unit :: string

text \<open>
  The dictionary \<^verbatim>\<open>units\<close> of \<^verbatim>\<open>get_unit_for_sensor\<close>, keyed by the members' string
  values; the last character of the acceleration unit is the code point U+00B2.
\<close>

definition units :: "(string \<times> string) list" where
  "units =
     [(SensorType_value TEMPERATURE, ''C''),
      (SensorType_value PRESSURE, ''kPa''),
      (SensorType_value FORCE, ''N''),
      (SensorType_value ACCELERATION, ''m/s'' @ [CHR 0xB2]),
      (SensorType_value POSITION, ''mm''),
      (SensorType_value LIGHT, ''lux'')]"

text \<open>\<^verbatim>\<open>units.get(sensor_type, "")\<close>.\<close>

definition get_unit_for_sensor :: "string \<Rightarrow> string" where
  "get_unit_for_sensor sensor_type' =
     (case map_of units sensor_type' of Some u \<Rightarrow> u | None \<Rightarrow> '''')"

text \<open>
  The local \<^verbatim>\<open>value\<close> of \<^verbatim>\<open>generate_sensor_data\<close> before it is rounded; \<open>u1\<close> and \<open>u2\<close>
  are the first and the second result of \<^verbatim>\<open>random.random()\<close>. The integers \<^verbatim>\<open>2\<close> and
  \<^verbatim>\<open>1\<close> are converted to floats by the operations.
\<close>

definition sensor_value ::
  "double \<Rightarrow> double \<Rightarrow> double \<Rightarrow> double \<Rightarrow> double \<Rightarrow> double" where
  "sensor_value min_val max_val noise u1 u2 =
     (let base_value = dadd min_val (dmul u1 (dsub max_val min_val));
          noise_value = dmul (dmul (dsub (dmul u2 (Finite 2)) (Finite 1)) noise)
                          (dsub max_val min_val)
      in dadd base_value noise_value)"

definition generate_sensor_data ::
  "string \<Rightarrow> double \<Rightarrow> double \<Rightarrow> double \<Rightarrow> double \<Rightarrow> double \<Rightarrow> double \<Rightarrow> Reading" where
  "generate_sensor_data sensor_type' min_val max_val noise u1 u2 now =
     \<lparr>type = sensor_type',
      value = py_round (sensor_value min_val max_val noise u1 u2) 3,
      timestamp = now,
      unit = get_unit_for_sensor sensor_type'\<rparr>"

subsection \<open>Module state\<close>

text \<open>
  Objects are held by reference. A \<open>ref\<close> is the position of a \<^verbatim>\<open>SimulationConfig\<close>
  object in \<open>heap\<close>, a \<open>thread_id\<close> the position of a \<^verbatim>\<open>threading.Thread\<close> object in
  \<open>threads\<close>; creating an object appends it. \<^verbatim>\<open>stop_event\<close> is bound once, to one
  \<^verbatim>\<open>threading.Event\<close>, so the state holds its flag.
\<close>

type_synonym ref = nat

type_synonym thread_id = nat

text \<open>
  Where a worker thread is. Each phase is the point before one test of \<^verbatim>\<open>stop_event\<close>
  or before one call that can block:
  \<^item> \<open>Spawned\<close>: started, before the first statement;
  \<^item> \<open>Outer_test\<close>: at the test of the outer \<^verbatim>\<open>while\<close>;
  \<^item> \<open>In_accept\<close>: in \<^verbatim>\<open>sock.accept()\<close>;
  \<^item> \<open>Backoff\<close>: in the \<^verbatim>\<open>time.sleep(1)\<close> of the outer exception handler;
  \<^item> \<open>Inner_test\<close>: at the test of the inner \<^verbatim>\<open>while\<close>;
  \<^item> \<open>Sending\<close>: in the loop body, before \<^verbatim>\<open>sendall\<close>;
  \<^item> \<open>Receiving\<close>: before \<^verbatim>\<open>recv\<close>;
  \<^item> \<open>Sleeping\<close>: before the \<^verbatim>\<open>time.sleep\<close> of the loop body;
  \<^item> \<open>Exited\<close>: returned.
\<close>

datatype phase =
  Spawned | Outer_test | In_accept | Backoff | Inner_test | Sending | Receiving | Sleeping
  | Exited

text \<open>
  \<^verbatim>\<open>threading.Thread(target=simulation_worker, args=(active_config, stop_event))\<close>:
  \<open>args_config\<close> is the first element of \<^verbatim>\<open>args\<close>, the reference passed as \<^verbatim>\<open>config\<close>.
\<close>

record Thread =
  args_config :: ref
  daemon :: bool
  phase :: phase

datatype message =
    Server_started string int
  | Connection_from string
  | Received string
  | Error_in_client_connection
  | Error_in_simulation_thread
  | Simulation_stopped

text \<open>What the module does to the world outside its own variables, in order.\<close>

datatype event =
    thread_start thread_id
  | thread_join thread_id real
  | sock_bind thread_id string int bool
  | sock_close thread_id
  | client_close thread_id
  | sendall thread_id Reading
  | sleep thread_id double
  | print message

record sim_state =
  simulation_running :: bool
  simulation_thread :: "thread_id option"
  stop_event :: bool
  active_config :: ref
  start_time :: "real option"
  heap :: "SimulationConfig list"
  threads :: "Thread list"
  trace :: "event list"

text \<open>The module right after import: \<^verbatim>\<open>active_config = SimulationConfig()\<close>.\<close>

definition initial_state :: sim_state where
  "initial_state =
     \<lparr>simulation_running = False, simulation_thread = None, stop_event = False,
      active_config = 0, start_time = None, heap = [default_config], threads = [],
      trace = []\<rparr>"

definition emit :: "event list \<Rightarrow> sim_state \<Rightarrow> sim_state" where
  "emit es s = s\<lparr>trace := trace s @ es\<rparr>"

definition set_phase :: "thread_id \<Rightarrow> phase \<Rightarrow> sim_state \<Rightarrow> sim_state" where
  "set_phase t p s = s\<lparr>threads := (threads s)[t := (threads s ! t)\<lparr>phase := p\<rparr>]\<rparr>"

definition is_alive :: "thread_id \<Rightarrow> sim_state \<Rightarrow> bool" where
  "is_alive t s = (t < length (threads s) \<and> phase (threads s ! t) \<noteq> Exited)"

subsection \<open>Streaming worker\<close>

text \<open>
  What the operating system, the client, the clock and the random generator give the
  worker during one step. \<open>sock_setup\<close> names the first call of the socket set-up that raises;
  \<open>recv_empty\<close> is \<^verbatim>\<open>b''\<close>, \<open>recv_text r\<close> non-empty bytes that decode and strip to \<open>r\<close>,
  \<open>recv_undecodable\<close> non-empty bytes on which \<^verbatim>\<open>decode('utf-8')\<close> raises;
  \<open>send_timeout\<close> and \<open>accept_timeout\<close> are \<^verbatim>\<open>socket.timeout\<close>.
\<close>

datatype setup_outcome =
  socket_raises | setsockopt_raises | bind_raises | listen_raises | settimeout_raises
  | listening

datatype accept_outcome = accept_timeout | accept_raises | accepted string

datatype send_outcome = sent | send_timeout | send_raises

datatype recv_outcome =
  recv_timeout | recv_raises | recv_empty | recv_text string | recv_undecodable

record worker_env =
  clock :: real
  sock_setup :: setup_outcome
  accept :: accept_outcome
  draw1 :: real
  draw2 :: real
  send :: send_outcome
  recv :: recv_outcome

text \<open>
  The worker from its first statement to the first test of the outer loop, as one
  step: of what it touches, only \<^verbatim>\<open>start_time\<close>, assigned first, is read by another
  thread. An exception reaches the outer \<^verbatim>\<open>except Exception\<close>; the \<^verbatim>\<open>finally\<close> closes
  \<^verbatim>\<open>sock\<close> unless it is still \<^verbatim>\<open>None\<close>.
\<close>

definition worker_setup ::
  "thread_id \<Rightarrow> worker_env \<Rightarrow> SimulationConfig \<Rightarrow> sim_state \<Rightarrow> sim_state" where
  "worker_setup t env config s =
     (let s1 = s\<lparr>start_time := Some (clock env)\<rparr>;
          failed = [print Error_in_simulation_thread, sock_close t, print Simulation_stopped]
      in case sock_setup env of
           socket_raises \<Rightarrow>
             set_phase t Exited
               (emit [print Error_in_simulation_thread, print Simulation_stopped] s1)
         | setsockopt_raises \<Rightarrow> set_phase t Exited (emit failed s1)
         | bind_raises \<Rightarrow>
             set_phase t Exited
               (emit (sock_bind t (host config) (port config) False # failed) s1)
         | listen_raises \<Rightarrow>
             set_phase t Exited
               (emit (sock_bind t (host config) (port config) True # failed) s1)
         | settimeout_raises \<Rightarrow>
             set_phase t Exited
               (emit (sock_bind t (host config) (port config) True # failed) s1)
         | listening \<Rightarrow>
             set_phase t Outer_test
               (emit [sock_bind t (host config) (port config) True,
                      print (Server_started (host config) (port config))] s1))"

text \<open>
  The test of the outer loop. When the event is set the loop ends and the \<^verbatim>\<open>finally\<close>
  runs.
\<close>

definition worker_outer_test :: "thread_id \<Rightarrow> sim_state \<Rightarrow> sim_state" where
  "worker_outer_test t s =
     (if stop_event s then
        set_phase t Exited (emit [sock_close t, print Simulation_stopped] s)
      else set_phase t In_accept s)"

text \<open>
  \<^verbatim>\<open>sock.accept()\<close> returns or raises: a timeout goes back to the test, any other
  exception to the handler that prints and sleeps.
\<close>

definition worker_accept :: "thread_id \<Rightarrow> worker_env \<Rightarrow> sim_state \<Rightarrow> sim_state" where
  "worker_accept t env s =
     (case accept env of
        accept_timeout \<Rightarrow> set_phase t Outer_test s
      | accept_raises \<Rightarrow> set_phase t Backoff (emit [print Error_in_client_connection] s)
      | accepted addr \<Rightarrow> set_phase t Inner_test (emit [print (Connection_from addr)] s))"

text \<open>The \<^verbatim>\<open>time.sleep(1)\<close> of the handler, then the outer loop goes on.\<close>

definition worker_backoff :: "thread_id \<Rightarrow> sim_state \<Rightarrow> sim_state" where
  "worker_backoff t s = set_phase t Outer_test (emit [sleep t (Finite 1)] s)"

text \<open>
  An exception other than \<^verbatim>\<open>socket.timeout\<close> inside the inner loop: the inner
  \<^verbatim>\<open>finally\<close> closes the client and the outer handler prints, then sleeps.
\<close>

definition client_failed :: "thread_id \<Rightarrow> sim_state \<Rightarrow> sim_state" where
  "client_failed t s =
     set_phase t Backoff (emit [client_close t, print Error_in_client_connection] s)"

text \<open>
  The test of the inner loop. When the event is set the loop ends, the client is closed
  and the outer loop tests the event again.
\<close>

definition worker_inner_test :: "thread_id \<Rightarrow> sim_state \<Rightarrow> sim_state" where
  "worker_inner_test t s =
     (if stop_event s then set_phase t Outer_test (emit [client_close t] s)
      else set_phase t Sending s)"

text \<open>
  One reading is made and sent. A \<^verbatim>\<open>socket.timeout\<close> out of \<^verbatim>\<open>sendall\<close> is caught by
  the outer \<^verbatim>\<open>except socket.timeout: continue\<close>, after the client is closed.
\<close>

definition worker_send ::
  "thread_id \<Rightarrow> worker_env \<Rightarrow> SimulationConfig \<Rightarrow> sim_state \<Rightarrow> sim_state" where
  "worker_send t env config s =
     (let data = generate_sensor_data (SensorType_value (sensor_type config))
                   (to_double (min_value config)) (to_double (max_value config))
                   (to_double (noise_factor config))
                   (to_double (draw1 env)) (to_double (draw2 env)) (to_double (clock env))
      in case send env of
           sent \<Rightarrow> set_phase t Receiving (emit [sendall t data] s)
         | send_timeout \<Rightarrow> set_phase t Outer_test (emit [client_close t] s)
         | send_raises \<Rightarrow> client_failed t s)"

text \<open>The reply is read with a timeout of 0.1 seconds, and printed when it is not empty.\<close>

definition worker_recv :: "thread_id \<Rightarrow> worker_env \<Rightarrow> sim_state \<Rightarrow> sim_state" where
  "worker_recv t env s =
     (case recv env of
        recv_timeout \<Rightarrow> set_phase t Sleeping s
      | recv_raises \<Rightarrow> client_failed t s
      | recv_empty \<Rightarrow> set_phase t Sleeping s
      | recv_text r \<Rightarrow> set_phase t Sleeping (emit [print (Received r)] s)
      | recv_undecodable \<Rightarrow> client_failed t s)"

text \<open>
  \<^verbatim>\<open>time.sleep(secs)\<close> raises for NaN, for a negative length, and for a length that does
  not fit the signed 64-bit count of nanoseconds CPython converts it to.
\<close>

definition sleep_raises :: "double \<Rightarrow> bool" where
  "sleep_raises secs =
     (case secs of
        Finite x \<Rightarrow>
          x < 0 \<or> (case dmul secs (Finite (10 ^ 9)) of Finite ns \<Rightarrow> 2 ^ 63 \<le> ns | _ \<Rightarrow> True)
      | _ \<Rightarrow> True)"

text \<open>
  \<^verbatim>\<open>time.sleep(1.0 / config.sample_rate_hz)\<close>: the division raises for a rate of zero.
\<close>

definition worker_sleep ::
  "thread_id \<Rightarrow> SimulationConfig \<Rightarrow> sim_state \<Rightarrow> sim_state" where
  "worker_sleep t config s =
     (case truediv (Finite 1) (to_double (sample_rate_hz config)) of
        None \<Rightarrow> client_failed t s
      | Some secs \<Rightarrow>
          if sleep_raises secs then client_failed t s
          else set_phase t Inner_test (emit [sleep t secs] s))"

text \<open>
  One step of the thread \<open>t\<close> running \<^verbatim>\<open>simulation_worker(config, stop_event)\<close>; \<open>config\<close>
  is read through the reference the thread was given.
\<close>

definition simulation_worker :: "thread_id \<Rightarrow> worker_env \<Rightarrow> sim_state \<Rightarrow> sim_state" where
  "simulation_worker t env s =
     (if t < length (threads s) then
        let config = heap s ! args_config (threads s ! t)
        in case phase (threads s ! t) of
             Spawned \<Rightarrow> worker_setup t env config s
           | Outer_test \<Rightarrow> worker_outer_test t s
           | In_accept \<Rightarrow> worker_accept t env s
           | Backoff \<Rightarrow> worker_backoff t s
           | Inner_test \<Rightarrow> worker_inner_test t s
           | Sending \<Rightarrow> worker_send t env config s
           | Receiving \<Rightarrow> worker_recv t env s
           | Sleeping \<Rightarrow> worker_sleep t config s
           | Exited \<Rightarrow> s
      else s)"

text \<open>
  Once \<^verbatim>\<open>stop_event\<close> is set, a worker in the given phase returns within this many of
  its own steps.
\<close>

fun rank :: "phase \<Rightarrow> nat" where
  "rank Exited = 0"
| "rank Outer_test = 1"
| "rank Spawned = 2"
| "rank Backoff = 2"
| "rank Inner_test = 2"
| "rank In_accept = 3"
| "rank Sleeping = 3"
| "rank Receiving = 4"
| "rank Sending = 5"

subsection \<open>Control handlers\<close>

datatype HTTPException = HTTPException int string

text \<open>
  The values the handlers return: \<open>Message m\<close> is \<^verbatim>\<open>{"message": m}\<close>,
  \<open>Message_config m c\<close> is \<^verbatim>\<open>{"message": m, "config": c}\<close> with \<open>c\<close> the reference held
  by \<^verbatim>\<open>active_config\<close>, \<open>Not_running\<close> is \<^verbatim>\<open>{"running": False}\<close>.
\<close>

datatype response =
    Root_info string "string list"
  | Message string
  | Message_config string ref
  | Not_running
  | Status SimulationStatus
  | Config ref
  | Sample Reading

type_synonym outcome = "(HTTPException + response) \<times> sim_state"

definition root :: "sim_state \<Rightarrow> outcome" where
  "root s =
     (Inr (Root_info ''HIL Sensor Simulator API''
        [''/start - Start the simulation'',
         ''/stop - Stop the simulation'',
         ''/status - Get simulation status'',
         ''/config - Get or update simulation config'']), s)"

definition start_simulation :: "sim_state \<Rightarrow> outcome" where
  "start_simulation s =
     (if simulation_running s then (Inr (Message ''Simulation already running''), s)
      else
        let t = length (threads s);
            th = \<lparr>args_config = active_config s, daemon = True, phase = Spawned\<rparr>
        in (Inr (Message_config ''Simulation started'' (active_config s)),
            s\<lparr>stop_event := False,
              simulation_running := True,
              simulation_thread := Some t,
              threads := threads s @ [th],
              trace := trace s @ [thread_start t]\<rparr>))"

text \<open>
  \<^verbatim>\<open>simulation_thread.join(timeout)\<close>. The caller is blocked while the threads of the
  process go on; \<open>window\<close> lists the worker steps, each with its thread, that fit into the
  timeout. The call returns once thread \<open>t\<close> has returned, or when the window is used up.
\<close>

fun join_wait ::
  "thread_id \<Rightarrow> (thread_id \<times> worker_env) list \<Rightarrow> sim_state \<Rightarrow> sim_state" where
  "join_wait t [] s = s"
| "join_wait t ((u, env) # window) s =
     (if is_alive t s then join_wait t window (simulation_worker u env s) else s)"

definition join ::
  "thread_id \<Rightarrow> real \<Rightarrow> (thread_id \<times> worker_env) list \<Rightarrow> sim_state \<Rightarrow> sim_state" where
  "join t timeout window s = join_wait t window (emit [thread_join t timeout] s)"

text \<open>The number of steps thread \<open>t\<close> has in a window.\<close>

definition turns :: "thread_id \<Rightarrow> (thread_id \<times> worker_env) list \<Rightarrow> nat" where
  "turns t window = length (filter (\<lambda>w. fst w = t) window)"

definition stop_simulation :: "(thread_id \<times> worker_env) list \<Rightarrow> sim_state \<Rightarrow> outcome" where
  "stop_simulation window s =
     (if \<not> simulation_running s then (Inr (Message ''No simulation running''), s)
      else
        let s1 = s\<lparr>stop_event := True\<rparr>;
            s2 = (case simulation_thread s1 of
                    None \<Rightarrow> s1
                  | Some t \<Rightarrow> join t 5 window s1)
        in (Inr (Message ''Simulation stopped''), s2\<lparr>simulation_running := False\<rparr>))"

text \<open>
  \<^verbatim>\<open>uptime = time.time() - start_time if start_time else 0\<close>: a \<^verbatim>\<open>start_time\<close> of
  \<^verbatim>\<open>None\<close> or zero is false.
\<close>

definition get_status :: "real \<Rightarrow> sim_state \<Rightarrow> outcome" where
  "get_status now s =
     (if \<not> simulation_running s then (Inr Not_running, s)
      else
        let uptime = (case start_time s of
                        None \<Rightarrow> Finite 0
                      | Some t0 \<Rightarrow>
                          if to_double t0 = Finite 0 then Finite 0
                          else dsub (to_double now) (to_double t0));
            config = heap s ! active_config s
        in (Inr (Status
              \<lparr>running = simulation_running s,
               SimulationStatus.sensor_type = Some (sensor_type config),
               SimulationStatus.sample_rate_hz = Some (to_double (sample_rate_hz config)),
               uptime_seconds = Some (py_round uptime 1)\<rparr>), s))"

definition get_config :: "sim_state \<Rightarrow> outcome" where
  "get_config s = (Inr (Config (active_config s)), s)"

text \<open>\<open>config\<close> is the reference to the object built from the request body.\<close>

definition update_config :: "ref \<Rightarrow> sim_state \<Rightarrow> outcome" where
  "update_config config s =
     (if simulation_running s then
        (Inl (HTTPException 400
           ''Cannot update configuration while simulation is running. Stop the simulation first.''),
         s)
      else
        (Inr (Message_config ''Configuration updated'' config), s\<lparr>active_config := config\<rparr>))"

definition generate_sample :: "real \<Rightarrow> real \<Rightarrow> real \<Rightarrow> sim_state \<Rightarrow> outcome" where
  "generate_sample u1 u2 now s =
     (let config = heap s ! active_config s;
          data = generate_sensor_data (SensorType_value (sensor_type config))
                   (to_double (min_value config)) (to_double (max_value config))
                   (to_double (noise_factor config))
                   (to_double u1) (to_double u2) (to_double now)
      in (Inr (Sample data), s))"

subsection \<open>Requests and runs\<close>

text \<open>
  The routes of the application. The body of \<^verbatim>\<open>POST /config\<close> has been parsed into the
  fields of a \<^verbatim>\<open>SimulationConfig\<close>: a value of each field's type, with no other condition
  declared on the model. The framework builds a new object from it and passes the
  reference.
\<close>

datatype request =
    GET_root
  | POST_start
  | POST_stop "(thread_id \<times> worker_env) list"
  | GET_status real
  | GET_config
  | POST_config SimulationConfig
  | GET_generate_sample real real real

definition new_config :: "SimulationConfig \<Rightarrow> sim_state \<Rightarrow> ref \<times> sim_state" where
  "new_config body s = (length (heap s), s\<lparr>heap := heap s @ [body]\<rparr>)"

fun handle :: "request \<Rightarrow> sim_state \<Rightarrow> outcome" where
  "handle GET_root s = root s"
| "handle POST_start s = start_simulation s"
| "handle (POST_stop window) s = stop_simulation window s"
| "handle (GET_status now) s = get_status now s"
| "handle GET_config s = get_config s"
| "handle (POST_config body) s = (case new_config body s of (config, s') \<Rightarrow> update_config config s')"
| "handle (GET_generate_sample u1 u2 now) s = generate_sample u1 u2 now s"




text \<open>
  The handlers are coroutines that never await, so the event loop runs each of them to
  its end; the workers run on threads of their own. A run interleaves whole requests
  with worker steps.
\<close>

datatype action = Request request | Worker thread_id worker_env

fun step :: "action \<Rightarrow> sim_state \<Rightarrow> sim_state" where
  "step (Request r) s = snd (handle r s)"
| "step (Worker t env) s = simulation_worker t env s"

fun run :: "action list \<Rightarrow> sim_state \<Rightarrow> sim_state" where
  "run [] s = s"
| "run (a # as) s = run as (step a s)"


section \<open>Properties\<close>

subsection \<open>Rounding to the nearest double\<close>

text \<open>
  The exponent of a real number, the distance between a real number and the double
  nearest to it, the numbers that are doubles, and overflow.
\<close>

lemma ilog2_bounds: "0 < n \<Longrightarrow> 2 ^ ilog2 n \<le> n \<and> n < 2 * 2 ^ ilog2 n"
proof (induction n rule: ilog2.induct)
  case (1 n)
  show ?case
  proof (cases "n < 2")
    case True
    with 1(2) have "n = 1" by simp
    then show ?thesis by (simp add: ilog2.simps)
  next
    case False
    then have pos: "0 < n div 2" by simp
    have k: "ilog2 n = Suc (ilog2 (n div 2))" using False by (subst ilog2.simps) simp
    from "1.IH" [OF False pos]
    have a: "2 ^ ilog2 (n div 2) \<le> n div 2" and b: "n div 2 < 2 * 2 ^ ilog2 (n div 2)"
      by simp_all
    have "2 * (n div 2) \<le> n" by simp
    with a have lo: "2 * 2 ^ ilog2 (n div 2) \<le> n" by linarith
    have "n < 2 * (n div 2) + 2" by linarith
    with b have hi: "n < 2 * (2 * 2 ^ ilog2 (n div 2))" by linarith
    from lo hi show ?thesis by (simp add: k)
  qed
qed

lemma exponent_bounds:
  assumes "x \<noteq> 0"
  shows "2 powi exponent x \<le> \<bar>x\<bar> \<and> \<bar>x\<bar> < 2 powi (exponent x + 1)"
proof (cases "1 \<le> \<bar>x\<bar>")
  case True
  define n where "n = nat \<lfloor>\<bar>x\<bar>\<rfloor>"
  have n1: "0 < n" using True by (simp add: n_def)
  have e: "exponent x = int (ilog2 n)" using True by (simp add: exponent_def n_def)
  from ilog2_bounds [OF n1] have a: "2 ^ ilog2 n \<le> n" and b: "n < 2 * 2 ^ ilog2 n" by simp_all
  have nx: "real n \<le> \<bar>x\<bar>" using True by (simp add: n_def)
  have xn: "\<bar>x\<bar> < real n + 1" using True by (simp add: n_def)
  have "(2::real) ^ ilog2 n \<le> real n" using of_nat_mono [OF a, where ?'a = real] by simp
  then have lo: "2 ^ ilog2 n \<le> \<bar>x\<bar>" using nx by linarith
  have "n + 1 \<le> 2 * 2 ^ ilog2 n" using b by simp
  from of_nat_mono [OF this, where ?'a = real]
  have "real n + 1 \<le> 2 * 2 ^ ilog2 n" by simp
  then have hi: "\<bar>x\<bar> < 2 * 2 ^ ilog2 n" using xn by linarith
  have p: "(2::real) powi (int (ilog2 n) + 1) = 2 * 2 ^ ilog2 n"
    by (simp add: power_int_add)
  from lo hi show ?thesis by (simp add: e p)
next
  case False
  define y where "y = 1 / \<bar>x\<bar>"
  define n where "n = nat (\<lceil>y\<rceil> - 1)"
  have x0: "0 < \<bar>x\<bar>" using assms by simp
  have y1: "1 < y" using False x0 by (simp add: y_def)
  have c2: "2 \<le> \<lceil>y\<rceil>" using y1 by linarith
  have n1: "0 < n" using c2 by (simp add: n_def)
  have e: "exponent x = - int (ilog2 n) - 1" using False by (simp add: exponent_def n_def y_def)
  from ilog2_bounds [OF n1] have a: "2 ^ ilog2 n \<le> n" and b: "n < 2 * 2 ^ ilog2 n" by simp_all
  have rn: "real n = of_int \<lceil>y\<rceil> - 1" using c2 by (simp add: n_def)
  have ny: "real n < y" unfolding rn by linarith
  have yn: "y \<le> real n + 1" unfolding rn by linarith
  have "(2::real) ^ ilog2 n \<le> real n" using of_nat_mono [OF a, where ?'a = real] by simp
  then have lo: "2 ^ ilog2 n < y" using ny by linarith
  have "n + 1 \<le> 2 * 2 ^ ilog2 n" using b by simp
  from of_nat_mono [OF this, where ?'a = real]
  have "real n + 1 \<le> 2 * 2 ^ ilog2 n" by simp
  then have hi: "y \<le> 2 * 2 ^ ilog2 n" using yn by linarith
  have xy: "\<bar>x\<bar> = 1 / y" using x0 by (simp add: y_def)
  have p1: "(2::real) powi (- int (ilog2 n) - 1) = 1 / (2 * 2 ^ ilog2 n)"
    by (simp add: power_int_diff power_int_minus field_simps)
  have p2: "(2::real) powi (- int (ilog2 n) - 1 + 1) = 1 / 2 ^ ilog2 n"
    by (simp add: power_int_minus field_simps)
  have A: "1 / (2 * 2 ^ ilog2 n) \<le> 1 / y"
    using hi y1 by (intro divide_left_mono) simp_all
  have B: "1 / y < 1 / 2 ^ ilog2 n"
    using lo y1 by (intro divide_strict_left_mono) simp_all
  from A B show ?thesis unfolding e p1 p2 xy by simp
qed

lemma pow2_less_D: "(2::real) powi a < 2 powi b \<Longrightarrow> a < b"
proof (rule ccontr)
  assume h: "(2::real) powi a < 2 powi b" and "\<not> a < b"
  then have "b \<le> a" by simp
  then have "(2::real) powi b \<le> 2 powi a" by (intro power_int_increasing) simp_all
  with h show False by simp
qed


lemma exponent_eqI:
  assumes "2 powi e \<le> \<bar>x\<bar>" and "\<bar>x\<bar> < 2 powi (e + 1)"
  shows "exponent x = e"
proof -
  have "(0::real) < 2 powi e" by simp
  with assms(1) have "0 < \<bar>x\<bar>" by linarith
  then have x0: "x \<noteq> 0" by auto
  from exponent_bounds [OF x0]
  have a: "2 powi exponent x \<le> \<bar>x\<bar>" and b: "\<bar>x\<bar> < 2 powi (exponent x + 1)" by simp_all
  have "(2::real) powi exponent x < 2 powi (e + 1)" using a assms(2) by linarith
  then have 1: "exponent x < e + 1" by (rule pow2_less_D)
  have "(2::real) powi e < 2 powi (exponent x + 1)" using b assms(1) by linarith
  then have 2: "e < exponent x + 1" by (rule pow2_less_D)
  from 1 2 show ?thesis by simp
qed
























subsection \<open>The value before and after the rounding to 3 decimals\<close>












subsection \<open>Sample generator: range of the value\<close>



















subsection \<open>Sample generator: totality and units\<close>









subsection \<open>What a worker step and a request leave unchanged\<close>

lemma emit_fields:
  "simulation_running (emit es s) = simulation_running s"
  "simulation_thread (emit es s) = simulation_thread s"
  "stop_event (emit es s) = stop_event s"
  "active_config (emit es s) = active_config s"
  "heap (emit es s) = heap s"
  "threads (emit es s) = threads s"
  "trace (emit es s) = trace s @ es"
  by (simp_all add: emit_def)

lemma set_phase_fields:
  "simulation_running (set_phase t p s) = simulation_running s"
  "simulation_thread (set_phase t p s) = simulation_thread s"
  "stop_event (set_phase t p s) = stop_event s"
  "active_config (set_phase t p s) = active_config s"
  "heap (set_phase t p s) = heap s"
  "trace (set_phase t p s) = trace s"
  "length (threads (set_phase t p s)) = length (threads s)"
  by (simp_all add: set_phase_def)

lemma set_phase_args:
  "args_config (threads (set_phase t p s) ! i) = args_config (threads s ! i)"
proof (cases "i = t \<and> t < length (threads s)")
  case True
  then show ?thesis by (simp add: set_phase_def)
next
  case False
  then show ?thesis
    by (cases "i = t") (simp_all add: set_phase_def list_update_beyond not_less)
qed

lemma set_phase_phase:
  "t < length (threads s) \<Longrightarrow> phase (threads (set_phase t p s) ! t) = p"
  by (simp add: set_phase_def)

lemma set_phase_other:
  "u \<noteq> t \<Longrightarrow> threads (set_phase u p s) ! t = threads s ! t"
  by (simp add: set_phase_def)

lemmas worker_defs =
  simulation_worker_def worker_setup_def worker_outer_test_def worker_accept_def
  worker_backoff_def client_failed_def worker_inner_test_def worker_send_def
  worker_recv_def worker_sleep_def Let_def

lemmas outcome_splits =
  phase.splits setup_outcome.splits accept_outcome.splits send_outcome.splits
  recv_outcome.splits option.splits

lemma worker_fields:
  "simulation_running (simulation_worker t env s) = simulation_running s"
  "simulation_thread (simulation_worker t env s) = simulation_thread s"
  "stop_event (simulation_worker t env s) = stop_event s"
  "active_config (simulation_worker t env s) = active_config s"
  "heap (simulation_worker t env s) = heap s"
  "length (threads (simulation_worker t env s)) = length (threads s)"
  by (simp_all add: worker_defs emit_fields set_phase_fields split: outcome_splits)

lemma worker_args:
  "args_config (threads (simulation_worker t env s) ! i) = args_config (threads s ! i)"
  by (simp add: worker_defs emit_fields set_phase_args split: outcome_splits)

lemma worker_trace: "prefix (trace s) (trace (simulation_worker t env s))"
  by (simp add: worker_defs emit_fields set_phase_fields split: outcome_splits)

lemma worker_args_list:
  "map args_config (threads (simulation_worker t env s)) = map args_config (threads s)"
  by (rule nth_equalityI) (simp_all add: worker_fields worker_args)

lemma join_wait_fields:
  "simulation_running (join_wait t window s) = simulation_running s"
  "simulation_thread (join_wait t window s) = simulation_thread s"
  "stop_event (join_wait t window s) = stop_event s"
  "active_config (join_wait t window s) = active_config s"
  "heap (join_wait t window s) = heap s"
  "map args_config (threads (join_wait t window s)) = map args_config (threads s)"
  by (induction t window s rule: join_wait.induct)
    (simp_all add: worker_fields worker_args_list)

lemma join_wait_trace: "prefix (trace s) (trace (join_wait t window s))"
proof (induction t window s rule: join_wait.induct)
  case (1 t s)
  then show ?case by simp
next
  case (2 t u env window s)
  show ?case
  proof (cases "is_alive t s")
    case True
    have "prefix (trace s) (trace (simulation_worker u env s))" by (rule worker_trace)
    also have "prefix \<dots> (trace (join_wait t window (simulation_worker u env s)))"
      using True by (rule "2.IH")
    finally show ?thesis using True by simp
  next
    case False
    then show ?thesis by simp
  qed
qed

lemma worker_other:
  "u \<noteq> t \<Longrightarrow> threads (simulation_worker u env s) ! t = threads s ! t"
  by (simp add: worker_defs emit_fields set_phase_other emit_def split: outcome_splits)

lemma worker_rank:
  assumes "stop_event s" and "t < length (threads s)" and "phase (threads s ! t) \<noteq> Exited"
  shows "rank (phase (threads (simulation_worker t env s) ! t)) < rank (phase (threads s ! t))"
  using assms
  by (simp add: worker_defs emit_def set_phase_def split: outcome_splits)

lemma join_wait_dead: "\<not> is_alive t s \<Longrightarrow> join_wait t window s = s"
  by (cases window) auto

lemma join_wait_exits:
  assumes "stop_event s" and "rank (phase (threads s ! t)) \<le> turns t window"
  shows "\<not> is_alive t (join_wait t window s)"
  using assms
proof (induction t window s rule: join_wait.induct)
  case (1 t s)
  then have "rank (phase (threads s ! t)) = 0" by (simp add: turns_def)
  then have "phase (threads s ! t) = Exited" by (cases "phase (threads s ! t)") simp_all
  then show ?case by (simp add: is_alive_def)
next
  case (2 t u env window s)
  show ?case
  proof (cases "is_alive t s")
    case False
    then show ?thesis by simp
  next
    case True
    then have len: "t < length (threads s)" and ph: "phase (threads s ! t) \<noteq> Exited"
      by (simp_all add: is_alive_def)
    let ?s' = "simulation_worker u env s"
    have st: "stop_event ?s'" using "2.prems"(1) by (simp add: worker_fields)
    have rk: "rank (phase (threads ?s' ! t)) \<le> turns t window"
    proof (cases "u = t")
      case True
      have "rank (phase (threads (simulation_worker t env s) ! t)) < rank (phase (threads s ! t))"
        using "2.prems"(1) len ph by (rule worker_rank)
      moreover have "turns t ((u, env) # window) = Suc (turns t window)"
        using True by (simp add: turns_def)
      ultimately show ?thesis using "2.prems"(2) True by simp
    next
      case False
      then have "threads ?s' ! t = threads s ! t" by (rule worker_other)
      moreover have "turns t ((u, env) # window) = turns t window"
        using False by (simp add: turns_def)
      ultimately show ?thesis using "2.prems"(2) by simp
    qed
    from "2.IH" [OF True st rk] True show ?thesis by simp
  qed
qed

lemma join_wait_untouched:
  assumes "turns t window = 0"
  shows "threads (join_wait t window s) ! t = threads s ! t"
  using assms
proof (induction t window s rule: join_wait.induct)
  case (1 t s)
  then show ?case by simp
next
  case (2 t u env window s)
  show ?case
  proof (cases "is_alive t s")
    case False
    then show ?thesis by simp
  next
    case True
    have ut: "u \<noteq> t" using "2.prems" by (auto simp: turns_def split: if_splits)
    then have tw: "turns t window = 0" using "2.prems" by (simp add: turns_def)
    have "threads (join_wait t window (simulation_worker u env s)) ! t =
          threads (simulation_worker u env s) ! t"
      using True tw by (rule "2.IH")
    also have "\<dots> = threads s ! t" using ut by (rule worker_other)
    finally show ?thesis using True by simp
  qed
qed

lemma join_wait_length: "length (threads (join_wait t window s)) = length (threads s)"
  by (induction t window s rule: join_wait.induct) (simp_all add: worker_fields)

lemma join_fields:
  "simulation_running (join t timeout window s) = simulation_running s"
  "simulation_thread (join t timeout window s) = simulation_thread s"
  "stop_event (join t timeout window s) = stop_event s"
  "active_config (join t timeout window s) = active_config s"
  "heap (join t timeout window s) = heap s"
  "map args_config (threads (join t timeout window s)) = map args_config (threads s)"
  by (simp_all add: join_def join_wait_fields emit_fields)

lemma join_trace: "prefix (trace s @ [thread_join t timeout]) (trace (join t timeout window s))"
  using join_wait_trace [of "emit [thread_join t timeout] s" t window]
  by (simp add: join_def emit_fields)

lemma stop_simulation_heap: "heap (snd (stop_simulation window s)) = heap s"
  by (simp add: stop_simulation_def Let_def join_fields split: option.splits)

lemma stop_simulation_args:
  "map args_config (threads (snd (stop_simulation window s))) = map args_config (threads s)"
  by (simp add: stop_simulation_def Let_def join_fields split: option.splits)

lemma handle_heap: "prefix (heap s) (heap (snd (handle r s)))"
  by (cases r)
    (simp_all add: root_def start_simulation_def stop_simulation_heap get_status_def
      get_config_def update_config_def generate_sample_def new_config_def Let_def)

lemma handle_args:
  "prefix (map args_config (threads s)) (map args_config (threads (snd (handle r s))))"
  by (cases r)
    (simp_all add: root_def start_simulation_def stop_simulation_args get_status_def
      get_config_def update_config_def generate_sample_def new_config_def Let_def)

lemma step_heap: "prefix (heap s) (heap (step a s))"
  by (cases a) (simp_all add: handle_heap worker_fields)

lemma step_args:
  "prefix (map args_config (threads s)) (map args_config (threads (step a s)))"
  by (cases a) (simp_all add: handle_args worker_args_list)

lemma run_heap: "prefix (heap s) (heap (run acts s))"
proof (induction acts arbitrary: s)
  case Nil
  then show ?case by simp
next
  case (Cons a acts)
  have "prefix (heap s) (heap (step a s))" by (rule step_heap)
  also have "prefix \<dots> (heap (run acts (step a s)))" by (rule Cons.IH)
  finally show ?case by simp
qed

lemma run_args:
  "prefix (map args_config (threads s)) (map args_config (threads (run acts s)))"
proof (induction acts arbitrary: s)
  case Nil
  then show ?case by simp
next
  case (Cons a acts)
  have "prefix (map args_config (threads s)) (map args_config (threads (step a s)))"
    by (rule step_args)
  also have "prefix \<dots> (map args_config (threads (run acts (step a s))))"
    by (rule Cons.IH)
  finally show ?case by simp
qed

lemma prefix_nth: "prefix xs ys \<Longrightarrow> i < length xs \<Longrightarrow> ys ! i = xs ! i"
  by (auto simp: prefix_def nth_append)

lemma prefix_map_nth:
  assumes "prefix (map f xs) (map f ys)" and "i < length xs"
  shows "f (ys ! i) = f (xs ! i)"
proof -
  have "length xs \<le> length ys" using assms(1) prefix_length_le by fastforce
  then have "i < length ys" using assms(2) by simp
  then have "f (ys ! i) = map f ys ! i" by simp
  also have "\<dots> = map f xs ! i" using assms by (intro prefix_nth) simp_all
  also have "\<dots> = f (xs ! i)" using assms(2) by simp
  finally show ?thesis .
qed

lemma start_simulation_idle:
  assumes "\<not> simulation_running s"
  shows "start_simulation s =
    (Inr (Message_config ''Simulation started'' (active_config s)),
     s\<lparr>stop_event := False,
       simulation_running := True,
       simulation_thread := Some (length (threads s)),
       threads := threads s @ [\<lparr>args_config = active_config s, daemon = True, phase = Spawned\<rparr>],
       trace := trace s @ [thread_start (length (threads s))]\<rparr>)"
  using assms by (simp add: start_simulation_def Let_def)

subsection \<open>Configuration updates\<close>

text \<open>
  C1, as stated, at a configuration that breaks all four conditions (\<open>min > max\<close>,
  negative noise factor, sample rate \<open>0\<close>, port \<open>0\<close>): submitted to the idle module it is
  accepted, and it is the active configuration afterwards.
\<close>

theorem update_config_validation_counterexample:
  "handle
     (POST_config
        \<lparr>sensor_type = TEMPERATURE, min_value = 10, max_value = 0, noise_factor = - 1,
         sample_rate_hz = 0, host = ''0.0.0.0'', port = 0\<rparr>)
     initial_state =
   (Inr (Message_config ''Configuration updated'' 1),
    initial_state
      \<lparr>heap :=
         [default_config,
          \<lparr>sensor_type = TEMPERATURE, min_value = 10, max_value = 0, noise_factor = - 1,
           sample_rate_hz = 0, host = ''0.0.0.0'', port = 0\<rparr>],
       active_config := 1\<rparr>)"
  by (simp add: new_config_def update_config_def initial_state_def)

text \<open>
  C1 (amended): while idle, \<^verbatim>\<open>update_config\<close> checks nothing about the submitted
  configuration: it always succeeds with "Configuration updated", and the active
  configuration afterwards is the submitted one as a whole. No result of
  \<^verbatim>\<open>update_config\<close> reports an invalid configuration.
\<close>

theorem update_config_idle:
  assumes "\<not> simulation_running s"
  shows "update_config config s =
           (Inr (Message_config ''Configuration updated'' config), s\<lparr>active_config := config\<rparr>)
         \<and> handle (POST_config body) s =
             (Inr (Message_config ''Configuration updated'' (length (heap s))),
              s\<lparr>heap := heap s @ [body], active_config := length (heap s)\<rparr>)
         \<and> heap (snd (handle (POST_config body) s))
             ! active_config (snd (handle (POST_config body) s)) = body"
  using assms by (simp add: update_config_def new_config_def)

theorem update_config_idle_witness:
  "\<not> simulation_running initial_state
   \<and> update_config 0 initial_state =
       (Inr (Message_config ''Configuration updated'' 0), initial_state\<lparr>active_config := 0\<rparr>)
   \<and> heap (snd (handle (POST_config (default_config\<lparr>port := 70000\<rparr>)) initial_state))
       ! active_config (snd (handle (POST_config (default_config\<lparr>port := 70000\<rparr>)) initial_state))
       = default_config\<lparr>port := 70000\<rparr>"
  using update_config_idle
    [where s = initial_state and config = 0 and body = "default_config\<lparr>port := 70000\<rparr>"]
  by (simp add: initial_state_def)

text \<open>
  C5: while the simulation is running, \<^verbatim>\<open>update_config\<close> raises the
  \<^verbatim>\<open>HTTPException\<close> with status 400 that says the configuration cannot be updated, for
  every submitted configuration, and leaves the whole state, hence the active
  configuration, as it was.
\<close>

theorem update_config_running:
  assumes "simulation_running s"
  shows "update_config config s =
           (Inl (HTTPException 400
              ''Cannot update configuration while simulation is running. Stop the simulation first.''),
            s)"
  using assms by (simp add: update_config_def)

theorem update_config_running_witness:
  "simulation_running (snd (start_simulation initial_state))
   \<and> update_config 0 (snd (start_simulation initial_state)) =
       (Inl (HTTPException 400
          ''Cannot update configuration while simulation is running. Stop the simulation first.''),
        snd (start_simulation initial_state))"
  using update_config_running [where s = "snd (start_simulation initial_state)" and config = 0]
  by (simp add: start_simulation_def initial_state_def)

subsection \<open>Start\<close>

text \<open>
  C7: while the simulation is running, \<^verbatim>\<open>start_simulation\<close> returns "Simulation
  already running", which is a normal result, and leaves the whole state as it was: no
  thread is created or started, nothing is bound, and the running flag, the active
  configuration and the thread handle are unchanged.
\<close>

theorem start_simulation_idempotent:
  assumes "simulation_running s"
  shows "start_simulation s = (Inr (Message ''Simulation already running''), s)"
  using assms by (simp add: start_simulation_def)

theorem start_simulation_idempotent_witness:
  "simulation_running (snd (start_simulation initial_state))
   \<and> start_simulation (snd (start_simulation initial_state)) =
       (Inr (Message ''Simulation already running''), snd (start_simulation initial_state))"
  using start_simulation_idempotent [where s = "snd (start_simulation initial_state)"]
  by (simp add: start_simulation_def initial_state_def)

text \<open>
  C3, as stated, from the initial state: the reference given to the worker is the
  reference held by \<^verbatim>\<open>active_config\<close>, and no second configuration object exists after
  the start.
\<close>

theorem start_simulation_snapshot_counterexample:
  "args_config (threads (snd (start_simulation initial_state)) ! 0) =
     active_config (snd (start_simulation initial_state))
   \<and> heap (snd (start_simulation initial_state)) = [default_config]"
  by (simp add: start_simulation_def initial_state_def)

text \<open>
  C3 (amended): \<^verbatim>\<open>start_simulation\<close> called while idle gives the worker the stored
  configuration object itself, not a copy. No request and no worker step changes an
  existing configuration object (\<^verbatim>\<open>update_config\<close> rebinds \<^verbatim>\<open>active_config\<close> to the
  submitted object), so over every sequence of requests and worker steps after the start
  the worker keeps the same reference and the object it reads has the content it had
  at the start.
\<close>

theorem worker_config_shared_unmodified:
  assumes "\<not> simulation_running s" and "active_config s < length (heap s)"
  shows "args_config (threads (snd (start_simulation s)) ! length (threads s)) = active_config s
         \<and> heap (snd (start_simulation s)) = heap s
         \<and> args_config (threads (run acts (snd (start_simulation s))) ! length (threads s)) =
             active_config s
         \<and> heap (run acts (snd (start_simulation s))) ! active_config s =
             heap s ! active_config s"
proof -
  let ?s1 = "snd (start_simulation s)"
  let ?t = "length (threads s)"
  have a: "args_config (threads ?s1 ! ?t) = active_config s"
    using assms(1) by (simp add: start_simulation_idle)
  have h: "heap ?s1 = heap s"
    using assms(1) by (simp add: start_simulation_idle)
  have t: "?t < length (threads ?s1)"
    using assms(1) by (simp add: start_simulation_idle)
  have "args_config (threads (run acts ?s1) ! ?t) = args_config (threads ?s1 ! ?t)"
    using run_args [of ?s1 acts] t by (rule prefix_map_nth)
  then have b: "args_config (threads (run acts ?s1) ! ?t) = active_config s"
    using a by simp
  have "prefix (heap s) (heap (run acts ?s1))"
    using run_heap [of ?s1 acts] h by simp
  then have c: "heap (run acts ?s1) ! active_config s = heap s ! active_config s"
    using assms(2) by (rule prefix_nth)
  from a h b c show ?thesis by blast
qed

theorem worker_config_shared_unmodified_witness:
  "\<not> simulation_running initial_state
   \<and> active_config initial_state < length (heap initial_state)
   \<and> args_config (threads (snd (start_simulation initial_state)) ! 0) = 0
   \<and> heap
       (run
          [Worker 0
             \<lparr>clock = 1000, sock_setup = listening, accept = accept_timeout, draw1 = 0,
              draw2 = 0, send = sent, recv = recv_timeout\<rparr>,
           Request (POST_config (default_config\<lparr>max_value := 5\<rparr>)),
           Request (POST_stop []),
           Request (POST_config (default_config\<lparr>max_value := 5\<rparr>))]
          (snd (start_simulation initial_state))) ! 0 = default_config"
  using worker_config_shared_unmodified
    [where s = initial_state
       and acts = "[Worker 0
             \<lparr>clock = 1000, sock_setup = listening, accept = accept_timeout, draw1 = 0,
              draw2 = 0, send = sent, recv = recv_timeout\<rparr>,
           Request (POST_config (default_config\<lparr>max_value := 5\<rparr>)),
           Request (POST_stop []),
           Request (POST_config (default_config\<lparr>max_value := 5\<rparr>))]"]
  by (simp add: initial_state_def)

text \<open>
  C2, as stated, from the initial state with a bind that fails: \<^verbatim>\<open>start_simulation\<close>
  returns "Simulation started"; the bind is attempted by the worker, which prints the
  error and returns; the running flag is still set afterwards.
\<close>

theorem start_simulation_bind_counterexample:
  "fst (start_simulation initial_state) = Inr (Message_config ''Simulation started'' 0)
   \<and> simulation_running
       (simulation_worker 0
          \<lparr>clock = 1000, sock_setup = bind_raises, accept = accept_timeout, draw1 = 0,
           draw2 = 0, send = sent, recv = recv_timeout\<rparr>
          (snd (start_simulation initial_state)))
   \<and> trace
       (simulation_worker 0
          \<lparr>clock = 1000, sock_setup = bind_raises, accept = accept_timeout, draw1 = 0,
           draw2 = 0, send = sent, recv = recv_timeout\<rparr>
          (snd (start_simulation initial_state))) =
      [thread_start 0, sock_bind 0 ''192.168.1.100'' 8080 False,
       print Error_in_simulation_thread, sock_close 0, print Simulation_stopped]"
  by (simp add: start_simulation_def initial_state_def simulation_worker_def worker_setup_def
      set_phase_def emit_def default_config_def DEFAULT_HOST_def DEFAULT_PORT_def)

text \<open>
  C2 (amended): \<^verbatim>\<open>start_simulation\<close> called while idle binds nothing itself: it clears
  \<^verbatim>\<open>stop_event\<close>, sets the running flag, creates and starts the worker thread with the
  active configuration as its argument, keeps the thread as \<^verbatim>\<open>simulation_thread\<close>, and
  returns "Simulation started" with the active configuration; it changes nothing else.
  The bind is done by the worker; when it fails, the worker records the start time,
  prints the error, closes its socket, prints "Simulation stopped" and returns; nothing
  is reported to the caller of \<^verbatim>\<open>start_simulation\<close>, and the running flag stays set.
\<close>

theorem start_simulation_bind_in_worker:
  assumes "\<not> simulation_running s" and "sock_setup env = bind_raises"
  shows "start_simulation s =
           (Inr (Message_config ''Simulation started'' (active_config s)),
            s\<lparr>stop_event := False,
              simulation_running := True,
              simulation_thread := Some (length (threads s)),
              threads := threads s @
                [\<lparr>args_config = active_config s, daemon = True, phase = Spawned\<rparr>],
              trace := trace s @ [thread_start (length (threads s))]\<rparr>)
         \<and> fst (start_simulation s) = Inr (Message_config ''Simulation started'' (active_config s))
         \<and> \<not> stop_event (snd (start_simulation s))
         \<and> simulation_running (snd (start_simulation s))
         \<and> simulation_thread (snd (start_simulation s)) = Some (length (threads s))
         \<and> args_config (threads (snd (start_simulation s)) ! length (threads s)) = active_config s
         \<and> trace (snd (start_simulation s)) = trace s @ [thread_start (length (threads s))]
         \<and> simulation_worker (length (threads s)) env (snd (start_simulation s)) =
             s\<lparr>stop_event := False,
               simulation_running := True,
               simulation_thread := Some (length (threads s)),
               start_time := Some (clock env),
               threads := threads s @
                 [\<lparr>args_config = active_config s, daemon = True, phase = Exited\<rparr>],
               trace := trace s @
                 [thread_start (length (threads s)),
                  sock_bind (length (threads s)) (host (heap s ! active_config s))
                    (port (heap s ! active_config s)) False,
                  print Error_in_simulation_thread,
                  sock_close (length (threads s)),
                  print Simulation_stopped]\<rparr>
         \<and> simulation_running
             (simulation_worker (length (threads s)) env (snd (start_simulation s)))
         \<and> \<not> is_alive (length (threads s))
               (simulation_worker (length (threads s)) env (snd (start_simulation s)))
         \<and> trace (simulation_worker (length (threads s)) env (snd (start_simulation s))) =
             trace s @
             [thread_start (length (threads s)),
              sock_bind (length (threads s)) (host (heap s ! active_config s))
                (port (heap s ! active_config s)) False,
              print Error_in_simulation_thread,
              sock_close (length (threads s)),
              print Simulation_stopped]"
  using assms
  by (simp add: start_simulation_def simulation_worker_def worker_setup_def
      set_phase_def emit_def is_alive_def Let_def)

theorem start_simulation_bind_in_worker_witness:
  "\<not> simulation_running initial_state
   \<and> sock_setup
        \<lparr>clock = 1000, sock_setup = bind_raises, accept = accept_timeout, draw1 = 0,
         draw2 = 0, send = sent, recv = recv_timeout\<rparr> = bind_raises
   \<and> fst (start_simulation initial_state) = Inr (Message_config ''Simulation started'' 0)
   \<and> \<not> stop_event (snd (start_simulation initial_state))
   \<and> simulation_running (snd (start_simulation initial_state))
   \<and> \<not> is_alive 0
         (simulation_worker 0
            \<lparr>clock = 1000, sock_setup = bind_raises, accept = accept_timeout, draw1 = 0,
             draw2 = 0, send = sent, recv = recv_timeout\<rparr>
            (snd (start_simulation initial_state)))"
proof -
  have i0: "\<not> simulation_running initial_state" "active_config initial_state = 0"
    "length (threads initial_state) = 0"
    by (simp_all add: initial_state_def)
  have b: "sock_setup
        \<lparr>clock = 1000, sock_setup = bind_raises, accept = accept_timeout, draw1 = 0,
         draw2 = 0, send = sent, recv = recv_timeout\<rparr> = bind_raises"
    by simp
  note w = start_simulation_bind_in_worker [OF i0(1) b, unfolded i0(2) i0(3)]
  from w have 1: "fst (start_simulation initial_state) =
      Inr (Message_config ''Simulation started'' 0)" by blast
  from w have 2: "\<not> stop_event (snd (start_simulation initial_state))" by blast
  from w have 3: "simulation_running (snd (start_simulation initial_state))" by blast
  from w have 4: "\<not> is_alive 0
         (simulation_worker 0
            \<lparr>clock = 1000, sock_setup = bind_raises, accept = accept_timeout, draw1 = 0,
             draw2 = 0, send = sent, recv = recv_timeout\<rparr>
            (snd (start_simulation initial_state)))" by blast
  from i0(1) b 1 2 3 4 show ?thesis by blast
qed

subsection \<open>Stop\<close>

text \<open>
  C4: \<^verbatim>\<open>stop_simulation\<close> called while idle returns "No simulation running" and
  leaves the state as it was. Called while running it returns "Simulation stopped" with
  the running flag cleared and \<^verbatim>\<open>stop_event\<close> set. With a worker thread \<open>t\<close> it first sets
  \<^verbatim>\<open>stop_event\<close>, then joins \<open>t\<close> with a timeout of 5 seconds, then clears the running
  flag, so the state afterwards is the state that the worker steps of the wait leave.
  When thread \<open>t\<close> has at least five steps during the wait, it has seen \<^verbatim>\<open>stop_event\<close>
  and has returned when \<^verbatim>\<open>stop_simulation\<close> returns (timely termination); when it has no
  step during the wait, it is still alive when \<^verbatim>\<open>stop_simulation\<close> returns (timeout);
  the running flag is cleared in both cases.
\<close>

theorem stop_simulation_returns_idle:
  "(\<not> simulation_running s \<longrightarrow>
      stop_simulation window s = (Inr (Message ''No simulation running''), s))
   \<and> (simulation_running s \<longrightarrow>
        fst (stop_simulation window s) = Inr (Message ''Simulation stopped'')
        \<and> \<not> simulation_running (snd (stop_simulation window s))
        \<and> stop_event (snd (stop_simulation window s))
        \<and> (simulation_thread s = Some t \<longrightarrow>
             snd (stop_simulation window s) =
               (join_wait t window (emit [thread_join t 5] (s\<lparr>stop_event := True\<rparr>)))
                 \<lparr>simulation_running := False\<rparr>
             \<and> prefix (trace s @ [thread_join t 5]) (trace (snd (stop_simulation window s)))
             \<and> (5 \<le> turns t window \<longrightarrow> \<not> is_alive t (snd (stop_simulation window s)))
             \<and> (turns t window = 0 \<and> is_alive t s \<longrightarrow>
                  is_alive t (snd (stop_simulation window s)))))"
proof -
  have idle: "stop_simulation window s = (Inr (Message ''No simulation running''), s)"
    if "\<not> simulation_running s"
    using that by (simp add: stop_simulation_def)
  have r: "fst (stop_simulation window s) = Inr (Message ''Simulation stopped'')"
    if "simulation_running s"
    using that by (simp add: stop_simulation_def Let_def)
  have i: "\<not> simulation_running (snd (stop_simulation window s))"
    if "simulation_running s"
    using that by (simp add: stop_simulation_def Let_def)
  have e: "stop_event (snd (stop_simulation window s))"
    if "simulation_running s"
    using that by (simp add: stop_simulation_def Let_def join_fields split: option.splits)
  let ?s1 = "emit [thread_join t 5] (s\<lparr>stop_event := True\<rparr>)"
  have q: "snd (stop_simulation window s) = (join_wait t window ?s1)\<lparr>simulation_running := False\<rparr>"
    if "simulation_running s" and "simulation_thread s = Some t"
    using that by (simp add: stop_simulation_def Let_def join_def)
  have j: "prefix (trace s @ [thread_join t 5]) (trace (snd (stop_simulation window s)))"
    if "simulation_running s" and "simulation_thread s = Some t"
    using that join_trace [of "s\<lparr>stop_event := True\<rparr>" t 5 window]
    by (simp add: stop_simulation_def Let_def)
  have x: "\<not> is_alive t (snd (stop_simulation window s))"
    if "simulation_running s" and "simulation_thread s = Some t" and w: "5 \<le> turns t window"
  proof -
    have "rank (phase (threads ?s1 ! t)) \<le> 5"
      by (cases "phase (threads ?s1 ! t)") simp_all
    then have "rank (phase (threads ?s1 ! t)) \<le> turns t window" using w by simp
    moreover have "stop_event ?s1" by (simp add: emit_fields)
    ultimately have "\<not> is_alive t (join_wait t window ?s1)" by (intro join_wait_exits)
    then show ?thesis unfolding q [OF that(1,2)] by (simp add: is_alive_def)
  qed
  have y: "is_alive t (snd (stop_simulation window s))"
    if "simulation_running s" and "simulation_thread s = Some t"
      and w: "turns t window = 0 \<and> is_alive t s"
  proof -
    have "threads (join_wait t window ?s1) ! t = threads ?s1 ! t"
      using w by (intro join_wait_untouched) simp
    moreover have "length (threads (join_wait t window ?s1)) = length (threads ?s1)"
      by (rule join_wait_length)
    ultimately show ?thesis
      unfolding q [OF that(1,2)] using w by (simp add: is_alive_def emit_fields)
  qed
  from idle r i e q j x y show ?thesis by blast
qed

theorem stop_simulation_returns_idle_witness:
  "\<not> simulation_running initial_state
   \<and> stop_simulation [] initial_state = (Inr (Message ''No simulation running''), initial_state)
   \<and> simulation_running (snd (start_simulation initial_state))
   \<and> simulation_thread (snd (start_simulation initial_state)) = Some 0
   \<and> 5 \<le> turns 0
        (replicate 5
           (0, \<lparr>clock = 1000, sock_setup = listening, accept = accept_timeout, draw1 = 0,
                draw2 = 0, send = sent, recv = recv_timeout\<rparr>))
   \<and> fst (stop_simulation
        (replicate 5
           (0, \<lparr>clock = 1000, sock_setup = listening, accept = accept_timeout, draw1 = 0,
                draw2 = 0, send = sent, recv = recv_timeout\<rparr>))
        (snd (start_simulation initial_state))) = Inr (Message ''Simulation stopped'')
   \<and> \<not> simulation_running
        (snd (stop_simulation
           (replicate 5
              (0, \<lparr>clock = 1000, sock_setup = listening, accept = accept_timeout, draw1 = 0,
                   draw2 = 0, send = sent, recv = recv_timeout\<rparr>))
           (snd (start_simulation initial_state))))
   \<and> \<not> is_alive 0
        (snd (stop_simulation
           (replicate 5
              (0, \<lparr>clock = 1000, sock_setup = listening, accept = accept_timeout, draw1 = 0,
                   draw2 = 0, send = sent, recv = recv_timeout\<rparr>))
           (snd (start_simulation initial_state))))
   \<and> turns 0 [] = 0
   \<and> is_alive 0 (snd (start_simulation initial_state))
   \<and> \<not> simulation_running (snd (stop_simulation [] (snd (start_simulation initial_state))))
   \<and> is_alive 0 (snd (stop_simulation [] (snd (start_simulation initial_state))))"
proof -
  let ?s1 = "snd (start_simulation initial_state)"
  let ?w = "replicate 5
           (0 :: nat, \<lparr>clock = 1000, sock_setup = listening, accept = accept_timeout, draw1 = 0,
                draw2 = 0, send = sent, recv = recv_timeout\<rparr>)"
  have s1: "simulation_running ?s1" "simulation_thread ?s1 = Some 0" "is_alive 0 ?s1"
    by (simp_all add: start_simulation_def initial_state_def is_alive_def)
  have tw: "5 \<le> turns 0 ?w" "turns 0 ([] :: (thread_id \<times> worker_env) list) = 0"
    by (simp_all add: turns_def)
  have i0: "\<not> simulation_running initial_state" by (simp add: initial_state_def)
  note a = stop_simulation_returns_idle [where s = initial_state and window = "[]"]
  note b = stop_simulation_returns_idle [where s = ?s1 and t = 0 and window = ?w]
  note c = stop_simulation_returns_idle [where s = ?s1 and t = 0 and window = "[]"]
  from a i0 have 1: "stop_simulation [] initial_state =
      (Inr (Message ''No simulation running''), initial_state)" by blast
  from b s1 tw have 2: "fst (stop_simulation ?w ?s1) = Inr (Message ''Simulation stopped'')"
    and 3: "\<not> simulation_running (snd (stop_simulation ?w ?s1))"
    and 4: "\<not> is_alive 0 (snd (stop_simulation ?w ?s1))" by blast+
  from c s1 tw have 5: "\<not> simulation_running (snd (stop_simulation [] ?s1))"
    and 6: "is_alive 0 (snd (stop_simulation [] ?s1))" by blast+
  from i0 1 s1 tw 2 3 4 5 6 show ?thesis by blast
qed

end
